theory Spec2Isabelle
  imports Main
begin

section \<open>Data model of the note-taking service\<close>

text \<open>
  The service keeps four module-level arrays (\<^verbatim>\<open>users\<close>, \<^verbatim>\<open>notes\<close>, \<^verbatim>\<open>tags\<close>,
  \<^verbatim>\<open>tokenBlacklist\<close>). They are modelled as one record of lists that every handler
  takes and returns. Identifiers are strings, as in the source. Timestamps are the
  milliseconds since the epoch of the JavaScript \<^verbatim>\<open>Date\<close> behind the ISO string the
  source stores. \<^verbatim>\<open>saveData\<close> only copies the arrays to disk and has no effect on them,
  so it does not appear in the model.
\<close>

record user =
  u_id :: string
  username :: string
  password :: string

record Note =
  n_id :: string
  title :: string
  content :: string
  tagIds :: "string list"
  n_userId :: string
  n_createdAt :: int
  n_updatedAt :: int
  archived :: bool
  color :: string

record Tag =
  t_id :: string
  name :: string
  t_userId :: string
  t_createdAt :: int
  t_updatedAt :: int

record blacklist_item =
  token :: string
  expiresAt :: int

record state =
  users :: "user list"
  "notes" :: "Note list"
  tags :: "Tag list"
  tokenBlacklist :: "blacklist_item list"

text \<open>A gRPC call as a handler sees it: the metadata (headers) and the request message.\<close>

record 'r call =
  metadata :: "(string \<times> string) list"
  request :: 'r

text \<open>
  Responses. Every response carries \<^verbatim>\<open>success\<close> and \<^verbatim>\<open>message\<close>; the other fields
  are absent (\<open>None\<close>) on failure. The user object of a response is the object literal
  of the source, kept as its list of keys and values.
\<close>

record status_response =
  success :: bool
  message :: string

record auth_response = status_response +
  rsp_token :: "string option"
  rsp_user :: "(string \<times> string) list option"

record notes_response = status_response +
  rsp_notes :: "Note list"

record note_response = status_response +
  rsp_note :: "Note option"

record tag_response = status_response +
  rsp_tag :: "Tag option"

subsection \<open>Array helpers of JavaScript\<close>

text \<open>\<^verbatim>\<open>findIndex\<close> gives the first index whose element satisfies the predicate
  (\<open>None\<close> for the source's \<^verbatim>\<open>-1\<close>); \<^verbatim>\<open>splice(i, 1)\<close> removes the element at \<open>i\<close>.\<close>

fun findIndex :: "('a \<Rightarrow> bool) \<Rightarrow> 'a list \<Rightarrow> nat option" where
  "findIndex P [] = None"
| "findIndex P (x # xs) =
     (if P x then Some 0 else (case findIndex P xs of None \<Rightarrow> None | Some i \<Rightarrow> Some (Suc i)))"

definition splice1 :: "nat \<Rightarrow> 'a list \<Rightarrow> 'a list" where
  "splice1 i xs = take i xs @ drop (Suc i) xs"

section \<open>External collaborators\<close>

text \<open>
  The handlers call two libraries that are not part of the repository: \<^verbatim>\<open>bcrypt\<close>
  and \<^verbatim>\<open>jsonwebtoken\<close>. They are parameters of the model. An error passed to a
  callback, or an exception thrown, is \<open>None\<close>. \<^verbatim>\<open>jwt_sign i u\<close> stands for
  \<^verbatim>\<open>jwt.sign({id: i, username: u}, SECRET_KEY, {expiresIn: '24h'})\<close>, \<^verbatim>\<open>jwt_verify now t\<close>
  for \<^verbatim>\<open>jwt.verify(t, SECRET_KEY)\<close> when the clock reads \<open>now\<close> (it throws on a
  malformed token, a bad signature or a passed expiry), and \<^verbatim>\<open>jwt_decode\<close> for
  \<^verbatim>\<open>jwt.decode\<close>, which reads the payload without looking at the signature.
  The \<^verbatim>\<open>exp\<close> claim of a payload is a whole number of seconds. The process secret is
  configured, so that \<^verbatim>\<open>jwt.sign\<close> returns a token.
\<close>

record jwt_payload =
  p_id :: string
  p_username :: string
  p_iat :: "int option"
  p_exp :: "int option"

record lib =
  bcrypt_hash :: "string \<Rightarrow> string option"
  bcrypt_compare :: "string \<Rightarrow> string \<Rightarrow> bool option"
  jwt_sign :: "string \<Rightarrow> string \<Rightarrow> string"
  jwt_decode :: "string \<Rightarrow> jwt_payload option"
  jwt_verify :: "int \<Rightarrow> string \<Rightarrow> jwt_payload option"

text \<open>
  \<^verbatim>\<open>new Date(ms).toISOString()\<close> throws a \<^verbatim>\<open>RangeError\<close> when \<open>ms\<close> is outside the
  range of a JavaScript date; otherwise the string it returns stands for \<open>ms\<close>.
\<close>

definition toISOString :: "int \<Rightarrow> int option" where
  "toISOString ms = (if \<bar>ms\<bar> \<le> 8640000000000000 then Some ms else None)"

text \<open>\<^verbatim>\<open>x || d\<close> on an optional string: \<^verbatim>\<open>undefined\<close> and the empty string are falsy.\<close>

definition or_default :: "string option \<Rightarrow> string \<Rightarrow> string" where
  "or_default x d = (case x of None \<Rightarrow> d | Some s \<Rightarrow> if s = [] then d else s)"

section \<open>Token blacklist\<close>

text \<open>\<^verbatim>\<open>cleanBlacklist\<close> reads the clock (\<open>now\<close>) and keeps the entries that expire later.\<close>

definition cleanBlacklist :: "int \<Rightarrow> state \<Rightarrow> state" where
  "cleanBlacklist now st =
     st\<lparr>tokenBlacklist := filter (\<lambda>item. expiresAt item > now) (tokenBlacklist st)\<rparr>"

datatype verify_result = Valid jwt_payload | Invalid string

definition isBlacklisted :: "state \<Rightarrow> string \<Rightarrow> bool" where
  "isBlacklisted st t = list_ex (\<lambda>item. token item = t) (tokenBlacklist st)"

text \<open>\<^verbatim>\<open>verifyToken\<close>: the blacklist is looked at first, then \<^verbatim>\<open>jwt.verify\<close> runs; every
  exception ends in the same \<^verbatim>\<open>catch\<close>.\<close>

definition verifyToken :: "lib \<Rightarrow> int \<Rightarrow> state \<Rightarrow> string \<Rightarrow> verify_result" where
  "verifyToken L now st t =
     (if isBlacklisted st t then Invalid ''Token has been revoked''
      else (case jwt_verify L now t of
              None \<Rightarrow> Invalid ''Invalid token''
            | Some decoded \<Rightarrow> Valid decoded))"

section \<open>AuthService\<close>

record RegisterRequest =
  rr_username :: string
  rr_password :: string


record LogoutRequest =
  lo_token :: string

definition auth_failure :: "string \<Rightarrow> auth_response" where
  "auth_failure m = \<lparr>success = False, message = m, rsp_token = None, rsp_user = None\<rparr>"

definition usernameExists :: "state \<Rightarrow> string \<Rightarrow> bool" where
  "usernameExists st n = list_ex (\<lambda>u. username u = n) (users st)"

text \<open>
  \<^verbatim>\<open>register\<close> runs in two turns of the event loop. The first turn tests the
  username against the users stored at that moment and, when it is free, hands the
  password to \<^verbatim>\<open>bcrypt.hash\<close>; \<open>register_begin\<close> is this turn, and its result is the
  answer when the handler answers at once. The second turn is the callback of
  \<^verbatim>\<open>bcrypt.hash\<close>: it stores the user in the state of that later moment, without a
  second test; \<open>register_callback\<close> is this turn. Other calls may run between the two
  turns. \<open>uid\<close> is the identifier \<^verbatim>\<open>uuidv4()\<close> returns.
\<close>

definition register_begin :: "state \<Rightarrow> RegisterRequest call \<Rightarrow> auth_response option" where
  "register_begin st c =
     (if usernameExists st (rr_username (request c))
      then Some (auth_failure ''Username already exists'')
      else None)"

definition register_callback :: "lib \<Rightarrow> string \<Rightarrow> state \<Rightarrow> RegisterRequest call \<Rightarrow> state \<times> auth_response" where
  "register_callback L uid st c =
     (let username' = rr_username (request c); password' = rr_password (request c) in
      case bcrypt_hash L password' of
        None \<Rightarrow> (st, auth_failure ''Error creating user'')
      | Some hashedPassword \<Rightarrow>
          (let newUser = \<lparr>u_id = uid, username = username', password = hashedPassword\<rparr>;
               tok = jwt_sign L (u_id newUser) (username newUser)
           in (st\<lparr>users := users st @ [newUser]\<rparr>,
               \<lparr>success = True, message = ''User registered successfully'',
                rsp_token = Some tok,
                rsp_user = Some [(''id'', u_id newUser), (''username'', username newUser)]\<rparr>)))"

text \<open>\<open>register\<close> is a registration that no other call overlaps: both turns see the
  same state.\<close>

definition register :: "lib \<Rightarrow> string \<Rightarrow> state \<Rightarrow> RegisterRequest call \<Rightarrow> state \<times> auth_response" where
  "register L uid st c =
     (case register_begin st c of
        Some answer \<Rightarrow> (st, answer)
      | None \<Rightarrow> register_callback L uid st c)"


text \<open>
  \<^verbatim>\<open>logout\<close>. The guard \<^verbatim>\<open>!decoded || !decoded.exp\<close> rejects a token that does not
  decode, a payload without \<^verbatim>\<open>exp\<close>, and \<^verbatim>\<open>exp\<close> equal to \<open>0\<close> (falsy). The
  conversion of the expiry to an ISO string may throw; the \<^verbatim>\<open>catch\<close> answers
  \<^verbatim>\<open>Error during logout\<close>, and nothing has been pushed by then.
\<close>

definition logout :: "lib \<Rightarrow> state \<Rightarrow> LogoutRequest call \<Rightarrow> state \<times> status_response" where
  "logout L st c =
     (let t = lo_token (request c) in
      case jwt_decode L t of
        None \<Rightarrow> (st, \<lparr>success = False, message = ''Invalid token''\<rparr>)
      | Some decoded \<Rightarrow>
          (case p_exp decoded of
             None \<Rightarrow> (st, \<lparr>success = False, message = ''Invalid token''\<rparr>)
           | Some e \<Rightarrow>
               if e = 0 then (st, \<lparr>success = False, message = ''Invalid token''\<rparr>)
               else (case toISOString (e * 1000) of
                       None \<Rightarrow> (st, \<lparr>success = False, message = ''Error during logout''\<rparr>)
                     | Some expiresAt' \<Rightarrow>
                         (st\<lparr>tokenBlacklist := tokenBlacklist st @ [\<lparr>token = t, expiresAt = expiresAt'\<rparr>]\<rparr>,
                          \<lparr>success = True, message = ''Logout successful''\<rparr>))))"

section \<open>NoteService\<close>

text \<open>An optional field of a request is \<open>None\<close> where the handler sees \<^verbatim>\<open>undefined\<close>.\<close>

record GetNotesRequest =
  gn_userId :: string
  gn_archived :: "bool option"
  gn_tagId :: "string option"

record CreateNoteRequest =
  cn_title :: "string option"
  cn_content :: "string option"
  cn_tagIds :: "string list option"
  cn_userId :: string
  cn_color :: "string option"

record UpdateNoteRequest =
  un_id :: string
  un_title :: "string option"
  un_content :: "string option"
  un_tagIds :: "string list option"
  un_userId :: string
  un_archived :: "bool option"
  un_color :: "string option"

text \<open>
  The server loads \<^verbatim>\<open>keep.proto\<close> with \<^verbatim>\<open>defaults: true\<close>, and the messages of the
  proto file (proto3) have no field presence: a field that the client did not set
  reaches the handler as the default of its type (the empty string, the empty list,
  \<^verbatim>\<open>false\<close>), never as \<^verbatim>\<open>undefined\<close>. \<open>decodeUpdateNoteRequest\<close> turns the message
  as the client built it (\<open>None\<close> for a field it did not set) into the request the
  handler receives.
\<close>

definition decodeUpdateNoteRequest :: "UpdateNoteRequest \<Rightarrow> UpdateNoteRequest" where
  "decodeUpdateNoteRequest m =
     m\<lparr>un_title := Some (case un_title m of None \<Rightarrow> [] | Some v \<Rightarrow> v),
       un_content := Some (case un_content m of None \<Rightarrow> [] | Some v \<Rightarrow> v),
       un_tagIds := Some (case un_tagIds m of None \<Rightarrow> [] | Some v \<Rightarrow> v),
       un_archived := Some (case un_archived m of None \<Rightarrow> False | Some v \<Rightarrow> v),
       un_color := Some (case un_color m of None \<Rightarrow> [] | Some v \<Rightarrow> v)\<rparr>"

definition getNotes :: "state \<Rightarrow> GetNotesRequest call \<Rightarrow> notes_response" where
  "getNotes st c =
     (let r = request c;
          byUser = filter (\<lambda>n. n_userId n = gn_userId r) (notes st);
          byArchived = (case gn_archived r of
                          None \<Rightarrow> byUser
                        | Some a \<Rightarrow> filter (\<lambda>n. archived n = a) byUser);
          byTag = (case gn_tagId r of
                     None \<Rightarrow> byArchived
                   | Some t \<Rightarrow> if t = [] then byArchived
                               else filter (\<lambda>n. t \<in> set (tagIds n)) byArchived)
      in \<lparr>success = True, message = ''Notes retrieved successfully'', rsp_notes = byTag\<rparr>)"

text \<open>\<^verbatim>\<open>createNote\<close>: \<open>uid\<close> is the fresh identifier, \<open>t1\<close> and \<open>t2\<close> the two clock
  readings for \<^verbatim>\<open>createdAt\<close> and \<^verbatim>\<open>updatedAt\<close>.\<close>

definition createNote :: "string \<Rightarrow> int \<Rightarrow> int \<Rightarrow> state \<Rightarrow> CreateNoteRequest call \<Rightarrow> state \<times> note_response" where
  "createNote uid t1 t2 st c =
     (let r = request c;
          newNote = \<lparr>n_id = uid,
                     title = or_default (cn_title r) [],
                     content = or_default (cn_content r) [],
                     tagIds = (case cn_tagIds r of None \<Rightarrow> [] | Some ts \<Rightarrow> ts),
                     n_userId = cn_userId r,
                     n_createdAt = t1,
                     n_updatedAt = t2,
                     archived = False,
                     color = or_default (cn_color r) ''#ffffff''\<rparr>
      in (st\<lparr>notes := notes st @ [newNote]\<rparr>,
          \<lparr>success = True, message = ''Note created successfully'', rsp_note = Some newNote\<rparr>))"

definition updateNote :: "int \<Rightarrow> state \<Rightarrow> UpdateNoteRequest call \<Rightarrow> state \<times> note_response" where
  "updateNote now st c =
     (let r = request c in
      case findIndex (\<lambda>n. n_id n = un_id r \<and> n_userId n = un_userId r) (notes st) of
        None \<Rightarrow> (st, \<lparr>success = False, message = ''Note not found'', rsp_note = None\<rparr>)
      | Some noteIndex \<Rightarrow>
          (let old = notes st ! noteIndex;
               updatedNote = old
                 \<lparr>title := (case un_title r of None \<Rightarrow> title old | Some v \<Rightarrow> v),
                  content := (case un_content r of None \<Rightarrow> content old | Some v \<Rightarrow> v),
                  tagIds := (case un_tagIds r of None \<Rightarrow> tagIds old | Some v \<Rightarrow> v),
                  archived := (case un_archived r of None \<Rightarrow> archived old | Some v \<Rightarrow> v),
                  color := (case un_color r of None \<Rightarrow> color old | Some v \<Rightarrow> v),
                  n_updatedAt := now\<rparr>
           in (st\<lparr>notes := (notes st)[noteIndex := updatedNote]\<rparr>,
               \<lparr>success = True, message = ''Note updated successfully'',
                rsp_note = Some updatedNote\<rparr>)))"

text \<open>\<^verbatim>\<open>UpdateNote\<close> as the server runs it: the message is decoded, then handed to the
  handler.\<close>

definition grpc_updateNote :: "int \<Rightarrow> state \<Rightarrow> UpdateNoteRequest call \<Rightarrow> state \<times> note_response" where
  "grpc_updateNote now st c = updateNote now st (c\<lparr>request := decodeUpdateNoteRequest (request c)\<rparr>)"

section \<open>TagService\<close>

record CreateTagRequest =
  ct_name :: string
  ct_userId :: string

record DeleteTagRequest =
  dt_id :: string
  dt_userId :: string

definition createTag :: "string \<Rightarrow> int \<Rightarrow> int \<Rightarrow> state \<Rightarrow> CreateTagRequest call \<Rightarrow> state \<times> tag_response" where
  "createTag uid t1 t2 st c =
     (let r = request c;
          newTag = \<lparr>t_id = uid, name = ct_name r, t_userId = ct_userId r,
                    t_createdAt = t1, t_updatedAt = t2\<rparr>
      in (st\<lparr>tags := tags st @ [newTag]\<rparr>,
          \<lparr>success = True, message = ''Tag created successfully'', rsp_tag = Some newTag\<rparr>))"

text \<open>\<^verbatim>\<open>deleteTag\<close>: the \<^verbatim>\<open>forEach\<close> runs over every note of the array.\<close>

definition deleteTag :: "state \<Rightarrow> DeleteTagRequest call \<Rightarrow> state \<times> status_response" where
  "deleteTag st c =
     (let r = request c in
      case findIndex (\<lambda>t. t_id t = dt_id r \<and> t_userId t = dt_userId r) (tags st) of
        None \<Rightarrow> (st, \<lparr>success = False, message = ''Tag not found''\<rparr>)
      | Some tagIndex \<Rightarrow>
          (st\<lparr>tags := splice1 tagIndex (tags st),
              notes := map (\<lambda>n. if dt_id r \<in> set (tagIds n)
                                 then n\<lparr>tagIds := filter (\<lambda>tagId. tagId \<noteq> dt_id r) (tagIds n)\<rparr>
                                 else n) (notes st)\<rparr>,
           \<lparr>success = True, message = ''Tag deleted successfully''\<rparr>))"

section \<open>UserService\<close>

record DeleteUserRequest =
  du_id :: string

text \<open>
  \<^verbatim>\<open>deleteUser\<close> makes three assignments in a row. \<open>deleteUser_steps\<close> lists the
  state after each of them, in the order of the source; it is empty when the user is
  not found. The handler's result is the last of these states.
\<close>

definition deleteUser_steps :: "state \<Rightarrow> DeleteUserRequest call \<Rightarrow> state list" where
  "deleteUser_steps st c =
     (let i = du_id (request c) in
      case findIndex (\<lambda>u. u_id u = i) (users st) of
        None \<Rightarrow> []
      | Some userIndex \<Rightarrow>
          (let s1 = st\<lparr>users := splice1 userIndex (users st)\<rparr>;
               s2 = s1\<lparr>notes := filter (\<lambda>n. n_userId n \<noteq> i) (notes s1)\<rparr>;
               s3 = s2\<lparr>tags := filter (\<lambda>t. t_userId t \<noteq> i) (tags s2)\<rparr>
           in [s1, s2, s3]))"

definition deleteUser :: "state \<Rightarrow> DeleteUserRequest call \<Rightarrow> state \<times> status_response" where
  "deleteUser st c =
     (case deleteUser_steps st c of
        [] \<Rightarrow> (st, \<lparr>success = False, message = ''User not found''\<rparr>)
      | s # ss \<Rightarrow> (last (s # ss), \<lparr>success = True, message = ''User deleted successfully''\<rparr>))"

text \<open>A state in which the user record is gone while a note or a tag of that user is
  still there.\<close>

definition userExists :: "string \<Rightarrow> state \<Rightarrow> bool" where
  "userExists i st = list_ex (\<lambda>u. u_id u = i) (users st)"

definition ownsSomething :: "string \<Rightarrow> state \<Rightarrow> bool" where
  "ownsSomething i st =
     (list_ex (\<lambda>n. n_userId n = i) (notes st) \<or> list_ex (\<lambda>t. t_userId t = i) (tags st))"

definition orphaned :: "string \<Rightarrow> state \<Rightarrow> bool" where
  "orphaned i st = (if userExists i st then False else ownsSomething i st)"

section \<open>The REST server of the same repository\<close>

text \<open>
  The repository serves the same operations a second time over HTTP. The routes that
  the properties below compare with the gRPC handlers are modelled here, under the
  names of the gRPC handlers with the prefix \<open>rest_\<close>; the middleware keeps its own
  name. An error answer is its status code and its message.
\<close>

text \<open>\<^verbatim>\<open>s.split(' ')\<close> of JavaScript: the pieces between the separators, empty pieces kept.\<close>

fun split_on :: "char \<Rightarrow> string \<Rightarrow> string list" where
  "split_on sep [] = [[]]"
| "split_on sep (x # xs) =
     (if x = sep then [] # split_on sep xs
      else (case split_on sep xs of
              [] \<Rightarrow> [[x]]
            | w # ws \<Rightarrow> (x # w) # ws))"

text \<open>\<^verbatim>\<open>authHeader && authHeader.split(' ')[1]\<close>; \<open>None\<close> is \<^verbatim>\<open>undefined\<close>.\<close>

definition bearer_token :: "(string \<times> string) list \<Rightarrow> string option" where
  "bearer_token hs =
     (case map_of hs ''authorization'' of
        None \<Rightarrow> None
      | Some authHeader \<Rightarrow>
          (case split_on (CHR '' '') authHeader of
             _ # t # _ \<Rightarrow> Some t
           | _ \<Rightarrow> None))"

text \<open>The middleware \<^verbatim>\<open>authenticateToken\<close>: \<open>Inr\<close> is the call of \<^verbatim>\<open>next()\<close> with the
  decoded user.\<close>

definition authenticateToken :: "lib \<Rightarrow> int \<Rightarrow> state \<Rightarrow> (string \<times> string) list \<Rightarrow> (nat \<times> string) + jwt_payload" where
  "authenticateToken L now st hs =
     (case bearer_token hs of
        None \<Rightarrow> Inl (401, ''Authentication required'')
      | Some t \<Rightarrow>
          if t = [] then Inl (401, ''Authentication required'')
          else if isBlacklisted st t then Inl (401, ''Token is no longer valid'')
          else (case jwt_verify L now t of
                  None \<Rightarrow> Inl (403, ''Invalid or expired token'')
                | Some u \<Rightarrow> Inr u))"

record RestGetNotes =
  rg_headers :: "(string \<times> string) list"
  rg_userId :: "string option"
  rg_archived :: "string option"
  rg_tagId :: "string option"

text \<open>\<^verbatim>\<open>app.get('/notes', authenticateToken, ...)\<close>.\<close>

definition rest_getNotes :: "lib \<Rightarrow> int \<Rightarrow> state \<Rightarrow> RestGetNotes \<Rightarrow> (nat \<times> string) + Note list" where
  "rest_getNotes L now st req =
     (case authenticateToken L now st (rg_headers req) of
        Inl e \<Rightarrow> Inl e
      | Inr _ \<Rightarrow>
          (let byUser = filter (\<lambda>n. Some (n_userId n) = rg_userId req) (notes st);
               byArchived = (case rg_archived req of
                               None \<Rightarrow> byUser
                             | Some a \<Rightarrow> filter (\<lambda>n. archived n = (a = ''true'')) byUser);
               byTag = (case rg_tagId req of
                          None \<Rightarrow> byArchived
                        | Some t \<Rightarrow> if t = [] then byArchived
                                    else filter (\<lambda>n. t \<in> set (tagIds n)) byArchived)
           in Inr byTag))"

text \<open>The body of \<^verbatim>\<open>app.put('/notes/:id', ...)\<close>, for the path parameter \<open>i\<close> and the
  JSON body; a key that the body does not have is \<open>None\<close>.\<close>

record RestUpdateNote =
  ru_title :: "string option"
  ru_content :: "string option"
  ru_tagIds :: "string list option"
  ru_userId :: "string option"
  ru_archived :: "bool option"
  ru_color :: "string option"

definition rest_updateNote :: "int \<Rightarrow> state \<Rightarrow> string \<Rightarrow> RestUpdateNote \<Rightarrow> state \<times> ((nat \<times> string) + Note)" where
  "rest_updateNote now st i body =
     (case findIndex (\<lambda>n. n_id n = i \<and> Some (n_userId n) = ru_userId body) (notes st) of
        None \<Rightarrow> (st, Inl (404, ''Note not found''))
      | Some noteIndex \<Rightarrow>
          (let old = notes st ! noteIndex;
               updatedNote = old
                 \<lparr>title := (case ru_title body of None \<Rightarrow> title old | Some v \<Rightarrow> v),
                  content := (case ru_content body of None \<Rightarrow> content old | Some v \<Rightarrow> v),
                  tagIds := (case ru_tagIds body of None \<Rightarrow> tagIds old | Some v \<Rightarrow> v),
                  archived := (case ru_archived body of None \<Rightarrow> archived old | Some v \<Rightarrow> v),
                  color := (case ru_color body of None \<Rightarrow> color old | Some v \<Rightarrow> v),
                  n_updatedAt := now\<rparr>
           in (st\<lparr>notes := (notes st)[noteIndex := updatedNote]\<rparr>, Inr updatedNote)))"

text \<open>The body of \<^verbatim>\<open>app.delete('/tags/:id', ...)\<close>, for the path parameter \<open>i\<close> and the
  query parameter \<open>userId\<close>.\<close>

definition rest_deleteTag :: "state \<Rightarrow> string \<Rightarrow> string option \<Rightarrow> state \<times> ((nat \<times> string) + string)" where
  "rest_deleteTag st i userId =
     (case findIndex (\<lambda>t. t_id t = i \<and> Some (t_userId t) = userId) (tags st) of
        None \<Rightarrow> (st, Inl (404, ''Tag not found''))
      | Some tagIndex \<Rightarrow>
          (st\<lparr>notes := map (\<lambda>n. if Some (n_userId n) = userId \<and> i \<in> set (tagIds n)
                                 then n\<lparr>tagIds := filter (\<lambda>tagId. tagId \<noteq> i) (tagIds n)\<rparr>
                                 else n) (notes st),
              tags := splice1 tagIndex (tags st)\<rparr>,
           Inr ''Tag deleted successfully''))"

text \<open>The three assignments of \<^verbatim>\<open>app.delete('/users/:id', ...)\<close>, in the order of the
  source.\<close>

definition rest_deleteUser_steps :: "state \<Rightarrow> string \<Rightarrow> state list" where
  "rest_deleteUser_steps st i =
     (case findIndex (\<lambda>u. u_id u = i) (users st) of
        None \<Rightarrow> []
      | Some userIndex \<Rightarrow>
          (let s1 = st\<lparr>notes := filter (\<lambda>n. n_userId n \<noteq> i) (notes st)\<rparr>;
               s2 = s1\<lparr>tags := filter (\<lambda>t. t_userId t \<noteq> i) (tags s1)\<rparr>;
               s3 = s2\<lparr>users := splice1 userIndex (users s2)\<rparr>
           in [s1, s2, s3]))"

section \<open>Concrete inputs\<close>

text \<open>
  A small instance of the libraries and of the state, on which the properties are
  evaluated. The tokens \<^verbatim>\<open>good.u1\<close> and \<^verbatim>\<open>forged.u1\<close> both decode to a payload that
  expires at second 87400; only the first carries a signature that verifies. The token
  \<^verbatim>\<open>epoch.u1\<close> decodes to a payload whose \<^verbatim>\<open>exp\<close> is \<open>0\<close>.
\<close>

definition demo_payload :: jwt_payload where
  "demo_payload = \<lparr>p_id = ''u1'', p_username = ''alice'', p_iat = Some 1000, p_exp = Some 87400\<rparr>"

definition demo_lib :: lib where
  "demo_lib =
     \<lparr>bcrypt_hash = (\<lambda>p. Some (''hash:'' @ p)),
      bcrypt_compare = (\<lambda>p h. Some (h = ''hash:'' @ p)),
      jwt_sign = (\<lambda>i u. ''good.'' @ i),
      jwt_decode = (\<lambda>t. if t = ''good.u1'' \<or> t = ''forged.u1'' then Some demo_payload
                        else if t = ''epoch.u1'' then Some (demo_payload\<lparr>p_exp := Some 0\<rparr>)
                        else None),
      jwt_verify = (\<lambda>now t. if t = ''good.u1'' \<and> now div 1000 < 87400 then Some demo_payload else None)\<rparr>"

definition demo_note1 :: Note where
  "demo_note1 = \<lparr>n_id = ''n1'', title = ''Shopping'', content = ''milk'', tagIds = [''t1''],
                 n_userId = ''u1'', n_createdAt = 1000, n_updatedAt = 1000, archived = False,
                 color = ''#ffffff''\<rparr>"

definition demo_note2 :: Note where
  "demo_note2 = \<lparr>n_id = ''n2'', title = ''Ideas'', content = ''draft'', tagIds = [''t1'', ''t7''],
                 n_userId = ''u2'', n_createdAt = 2000, n_updatedAt = 2000, archived = False,
                 color = ''#ffffff''\<rparr>"

definition demo_tag1 :: Tag where
  "demo_tag1 = \<lparr>t_id = ''t1'', name = ''home'', t_userId = ''u1'', t_createdAt = 500,
                t_updatedAt = 500\<rparr>"

definition demo_state :: state where
  "demo_state =
     \<lparr>users = [\<lparr>u_id = ''u1'', username = ''alice'', password = ''hash:pw1''\<rparr>,
               \<lparr>u_id = ''u2'', username = ''bob'', password = ''hash:pw2''\<rparr>],
      notes = [demo_note1, demo_note2],
      tags = [demo_tag1],
      tokenBlacklist = []\<rparr>"

definition empty_state :: state where
  "empty_state = \<lparr>users = [], notes = [], tags = [], tokenBlacklist = []\<rparr>"

definition revoked_state :: state where
  "revoked_state = empty_state\<lparr>tokenBlacklist := [\<lparr>token = ''forged.u1'', expiresAt = 87400000\<rparr>]\<rparr>"

definition old_blacklist_state :: state where
  "old_blacklist_state =
     empty_state\<lparr>tokenBlacklist := [\<lparr>token = ''a'', expiresAt = 10\<rparr>, \<lparr>token = ''b'', expiresAt = 20\<rparr>,
                                   \<lparr>token = ''c'', expiresAt = 30\<rparr>]\<rparr>"

definition getNotes_call :: "GetNotesRequest call" where
  "getNotes_call =
     \<lparr>metadata = [], request = \<lparr>gn_userId = ''u1'', gn_archived = Some False, gn_tagId = Some []\<rparr>\<rparr>"

definition rest_getNotes_request :: RestGetNotes where
  "rest_getNotes_request =
     \<lparr>rg_headers = [], rg_userId = Some ''u1'', rg_archived = None, rg_tagId = None\<rparr>"

definition deleteTag_call :: "DeleteTagRequest call" where
  "deleteTag_call = \<lparr>metadata = [], request = \<lparr>dt_id = ''t1'', dt_userId = ''u1''\<rparr>\<rparr>"

definition deleteUser_call :: "DeleteUserRequest call" where
  "deleteUser_call = \<lparr>metadata = [], request = \<lparr>du_id = ''u1''\<rparr>\<rparr>"


definition register_empty_call :: "RegisterRequest call" where
  "register_empty_call = \<lparr>metadata = [], request = \<lparr>rr_username = [], rr_password = ''pw''\<rparr>\<rparr>"






definition logout_forged_call :: "LogoutRequest call" where
  "logout_forged_call = \<lparr>metadata = [], request = \<lparr>lo_token = ''forged.u1''\<rparr>\<rparr>"

definition logout_epoch_call :: "LogoutRequest call" where
  "logout_epoch_call = \<lparr>metadata = [], request = \<lparr>lo_token = ''epoch.u1''\<rparr>\<rparr>"

definition logout_garbage_call :: "LogoutRequest call" where
  "logout_garbage_call = \<lparr>metadata = [], request = \<lparr>lo_token = ''garbage''\<rparr>\<rparr>"

text \<open>An update that sets the title only, as the client builds it, and the same update
  as a JSON body of the REST route.\<close>

definition rest_updateNote_body :: RestUpdateNote where
  "rest_updateNote_body =
     \<lparr>ru_title = Some ''Groceries'', ru_content = None, ru_tagIds = None, ru_userId = Some ''u1'',
      ru_archived = None, ru_color = None\<rparr>"

definition updateNote_call :: "UpdateNoteRequest call" where
  "updateNote_call =
     \<lparr>metadata = [],
      request = \<lparr>un_id = ''n1'', un_title = Some ''Groceries'', un_content = None, un_tagIds = None,
                 un_userId = ''u1'', un_archived = None, un_color = None\<rparr>\<rparr>"

section \<open>Properties\<close>

subsection \<open>Facts about the array helpers\<close>

lemma findIndex_Some:
  "findIndex P xs = Some i \<Longrightarrow> i < length xs \<and> P (xs ! i) \<and> (\<forall>j<i. \<not> P (xs ! j))"
proof (induction xs arbitrary: i)
  case Nil
  then show ?case by simp
next
  case (Cons x xs)
  show ?case
  proof (cases "P x")
    case True
    with Cons.prems show ?thesis by simp
  next
    case False
    with Cons.prems obtain k where k: "findIndex P xs = Some k" "i = Suc k"
      by (auto split: option.splits)
    from Cons.IH [OF k(1)] have ih: "k < length xs" "P (xs ! k)" "\<forall>j<k. \<not> P (xs ! j)"
      by auto
    show ?thesis
      using ih False k(2) by (auto simp: less_Suc_eq_0_disj)
  qed
qed

lemma findIndex_None: "findIndex P xs = None \<longleftrightarrow> \<not> list_ex P xs"
  by (induction xs) (auto split: option.splits)

lemma findIndex_exists:
  "x \<in> set xs \<Longrightarrow> P x \<Longrightarrow> \<exists>i. findIndex P xs = Some i"
  by (induction xs) (auto split: option.splits)


lemma count_list_filter_keep:
  "P e \<Longrightarrow> count_list (filter P xs) e = count_list xs e"
  by (induction xs) auto

subsection \<open>Authentication before dispatch\<close>

text \<open>The gRPC handler reads neither the metadata of the call nor the blacklist.\<close>

lemma getNotes_ignores_metadata:
  "getNotes st (c\<lparr>metadata := m\<rparr>) = getNotes st c"
  by (simp add: getNotes_def)

lemma getNotes_ignores_blacklist:
  "getNotes (st\<lparr>tokenBlacklist := b\<rparr>) c = getNotes st c"
  by (simp add: getNotes_def)

text \<open>The REST route answers with notes only for a request whose bearer token
  \<^verbatim>\<open>jwt.verify\<close> accepts and the blacklist does not hold.\<close>

lemma rest_getNotes_needs_valid_token:
  assumes "rest_getNotes L now st req = Inr ns"
  shows "\<exists>t u. bearer_token (rg_headers req) = Some t \<and> verifyToken L now st t = Valid u"
  using assms
  by (auto simp: rest_getNotes_def authenticateToken_def verifyToken_def
      split: option.splits sum.splits if_splits)

text \<open>
  C1. The claim: every operation on notes, tags and users resolves a bearer token
  before it is dispatched, and a call without a valid token is not dispatched. The gRPC
  handler \<^verbatim>\<open>getNotes\<close> does not do so: on a call that carries no token at all (empty
  metadata; the request message has no token field) it answers with the notes of the
  user named in the request. The REST route for the same operation rejects the request
  without a token with status 401.
\<close>

theorem getNotes_without_token:
  "metadata getNotes_call = []
   \<and> getNotes demo_state getNotes_call =
       \<lparr>success = True, message = ''Notes retrieved successfully'', rsp_notes = [demo_note1]\<rparr>
   \<and> rest_getNotes demo_lib 0 demo_state rest_getNotes_request = Inl (401, ''Authentication required'')"
  by (simp add: Let_def getNotes_def getNotes_call_def demo_state_def demo_note1_def demo_note2_def
      rest_getNotes_def rest_getNotes_request_def authenticateToken_def bearer_token_def)

subsection \<open>Deleting a tag\<close>

text \<open>After a successful gRPC \<^verbatim>\<open>deleteTag\<close> no note of any owner holds the tag id.\<close>

lemma deleteTag_strips_every_note:
  assumes "deleteTag st c = (st', r)" and "success r"
  shows "\<forall>n \<in> set (notes st'). dt_id (request c) \<notin> set (tagIds n)"
  using assms
  by (auto simp: deleteTag_def Let_def split: option.splits if_splits)

text \<open>The REST route leaves the notes of every other owner as they were.\<close>

lemma rest_deleteTag_frame:
  assumes "rest_deleteTag st i (Some owner) = (st', Inr m)"
  shows "length (notes st') = length (notes st)
     \<and> (\<forall>j < length (notes st). n_userId (notes st ! j) \<noteq> owner \<longrightarrow> notes st' ! j = notes st ! j)"
  using assms
  by (auto simp: rest_deleteTag_def split: option.splits)

text \<open>
  C2. The claim: a successful \<open>deleteTag(tagId, ownerId)\<close> removes the tag, removes
  \<open>tagId\<close> from the notes of \<open>ownerId\<close>, and leaves every note of any other owner
  completely unchanged, even if its \<open>tagIds\<close> holds the same string. The gRPC handler
  breaks the last part: user \<open>u1\<close> deletes the tag \<open>t1\<close>, and the note \<open>n2\<close> of user
  \<open>u2\<close>, whose \<open>tagIds\<close> were \<open>[t1, t7]\<close>, comes out with \<open>tagIds = [t7]\<close>.
\<close>

theorem deleteTag_changes_other_owner:
  "success (snd (deleteTag demo_state deleteTag_call))
   \<and> notes demo_state ! 1 = demo_note2
   \<and> n_userId demo_note2 = ''u2''
   \<and> tagIds demo_note2 = [''t1'', ''t7'']
   \<and> notes (fst (deleteTag demo_state deleteTag_call)) ! 1 = demo_note2\<lparr>tagIds := [''t7'']\<rparr>
   \<and> notes (fst (deleteTag demo_state deleteTag_call)) ! 1 \<noteq> demo_note2"
  by (simp add: Let_def deleteTag_def deleteTag_call_def demo_state_def demo_note1_def demo_note2_def
      demo_tag1_def splice1_def)

subsection \<open>Deleting a user\<close>

text \<open>The final state of the gRPC handler: the notes and tags of the other users, in
  their order.\<close>

lemma deleteUser_final_state:
  assumes "deleteUser st c = (st', r)" and "success r"
  shows "notes st' = filter (\<lambda>n. n_userId n \<noteq> du_id (request c)) (notes st)
     \<and> tags st' = filter (\<lambda>t. t_userId t \<noteq> du_id (request c)) (tags st)
     \<and> tokenBlacklist st' = tokenBlacklist st"
  using assms
  by (auto simp: deleteUser_def deleteUser_steps_def Let_def split: option.splits list.splits)

text \<open>Whenever the user is stored once and owns a note or a tag, the first step of the
  gRPC handler leaves that note or tag without its user.\<close>

lemma deleteUser_first_step_orphaned:
  assumes "findIndex (\<lambda>u. u_id u = du_id (request c)) (users st) = Some k"
    and "\<not> list_ex (\<lambda>u. u_id u = du_id (request c)) (splice1 k (users st))"
    and "ownsSomething (du_id (request c)) st"
  shows "orphaned (du_id (request c)) (hd (deleteUser_steps st c))"
  using assms
  by (simp add: deleteUser_steps_def Let_def orphaned_def userExists_def ownsSomething_def)

text \<open>No step of the REST route does.\<close>

lemma rest_deleteUser_never_orphaned:
  "\<not> list_ex (orphaned i) (rest_deleteUser_steps st i)"
proof (cases "findIndex (\<lambda>u. u_id u = i) (users st)")
  case None
  then show ?thesis by (simp add: rest_deleteUser_steps_def)
next
  case (Some k)
  from findIndex_Some [OF Some] have "k < length (users st)" "u_id (users st ! k) = i"
    by simp_all
  then have ex: "list_ex (\<lambda>u. u_id u = i) (users st)"
    by (auto simp: list_ex_iff)
  have gone: "\<not> list_ex (\<lambda>n. n_userId n = i) (filter (\<lambda>n. n_userId n \<noteq> i) (notes st))"
    "\<not> list_ex (\<lambda>t. t_userId t = i) (filter (\<lambda>t. t_userId t \<noteq> i) (tags st))"
    by (simp_all add: list_ex_iff)
  show ?thesis
    using Some ex gone
    by (simp add: rest_deleteUser_steps_def Let_def orphaned_def userExists_def ownsSomething_def)
qed

text \<open>
  C3. The claim: \<open>deleteUser\<close> deletes the notes of the user, then the tags, and the
  user record last, so that no intermediate state has the user record absent while a note
  or a tag of that user still exists. The gRPC handler removes the user record first:
  for user \<open>u1\<close> the state after its first step has no user \<open>u1\<close> but still the note
  \<open>n1\<close> and the tag \<open>t1\<close> of \<open>u1\<close>. The entities of user \<open>u2\<close> stay in every
  step.
\<close>

theorem deleteUser_removes_user_first:
  "deleteUser_steps demo_state deleteUser_call =
     [demo_state\<lparr>users := [\<lparr>u_id = ''u2'', username = ''bob'', password = ''hash:pw2''\<rparr>]\<rparr>,
      demo_state\<lparr>users := [\<lparr>u_id = ''u2'', username = ''bob'', password = ''hash:pw2''\<rparr>],
                  notes := [demo_note2]\<rparr>,
      demo_state\<lparr>users := [\<lparr>u_id = ''u2'', username = ''bob'', password = ''hash:pw2''\<rparr>],
                  notes := [demo_note2], tags := []\<rparr>]
   \<and> notes demo_state = [demo_note1, demo_note2]
   \<and> n_userId demo_note1 = ''u1''
   \<and> orphaned ''u1'' (hd (deleteUser_steps demo_state deleteUser_call))
   \<and> list_ex (orphaned ''u1'') (deleteUser_steps demo_state deleteUser_call)"
  by (simp add: Let_def deleteUser_steps_def deleteUser_call_def demo_state_def demo_note1_def
      demo_note2_def demo_tag1_def splice1_def orphaned_def userExists_def ownsSomething_def)

subsection \<open>Verifying a token\<close>

text \<open>
  C4, as claimed: a token whose signature does not verify gets the same answer whatever
  the revocation set holds. It fails: \<^verbatim>\<open>jwt.verify\<close> rejects the token \<^verbatim>\<open>forged.u1\<close>,
  and \<^verbatim>\<open>verifyToken\<close> answers \<^verbatim>\<open>Token has been revoked\<close> in the state whose blacklist
  holds it and \<^verbatim>\<open>Invalid token\<close> in the state that differs only in an empty blacklist.
\<close>

theorem verifyToken_tampered_depends_on_blacklist:
  "jwt_verify demo_lib 0 ''forged.u1'' = None
   \<and> users revoked_state = users empty_state
   \<and> notes revoked_state = notes empty_state
   \<and> tags revoked_state = tags empty_state
   \<and> verifyToken demo_lib 0 revoked_state ''forged.u1'' = Invalid ''Token has been revoked''
   \<and> verifyToken demo_lib 0 empty_state ''forged.u1'' = Invalid ''Invalid token''
   \<and> verifyToken demo_lib 0 revoked_state ''forged.u1'' \<noteq> verifyToken demo_lib 0 empty_state ''forged.u1''"
  by (simp add: verifyToken_def isBlacklisted_def revoked_state_def empty_state_def demo_lib_def)

text \<open>
  C4, amended. Membership in the revocation set is checked first, the signature and the
  expiry (inside \<^verbatim>\<open>jwt.verify\<close>) after it. For every token that \<^verbatim>\<open>jwt.verify\<close> rejects,
  in particular one whose signature does not verify, \<^verbatim>\<open>verifyToken\<close> returns a failure:
  \<^verbatim>\<open>Token has been revoked\<close> when the token is in the revocation set and
  \<^verbatim>\<open>Invalid token\<close> otherwise. The answers in two states are identical whenever the two
  revocation sets agree on whether they hold the token.
\<close>

theorem verifyToken_rejected_token:
  assumes "jwt_verify L now t = None"
  shows "verifyToken L now st t =
           (if isBlacklisted st t then Invalid ''Token has been revoked'' else Invalid ''Invalid token'')
       \<and> (isBlacklisted st t = isBlacklisted st' t \<longrightarrow> verifyToken L now st t = verifyToken L now st' t)"
  using assms by (simp add: verifyToken_def)

theorem verifyToken_rejected_token_witness:
  "jwt_verify demo_lib 0 ''forged.u1'' = None
   \<and> verifyToken demo_lib 0 revoked_state ''forged.u1'' = Invalid ''Token has been revoked''
   \<and> verifyToken demo_lib 0 empty_state ''forged.u1'' = Invalid ''Invalid token''
   \<and> isBlacklisted empty_state ''forged.u1'' = isBlacklisted demo_state ''forged.u1''
   \<and> verifyToken demo_lib 0 empty_state ''forged.u1'' = verifyToken demo_lib 0 demo_state ''forged.u1''"
proof -
  have rej: "jwt_verify demo_lib 0 ''forged.u1'' = None"
    by (simp add: demo_lib_def)
  have same: "isBlacklisted empty_state ''forged.u1'' = isBlacklisted demo_state ''forged.u1''"
    by (simp add: isBlacklisted_def empty_state_def demo_state_def)
  have yes: "isBlacklisted revoked_state ''forged.u1''"
    by (simp add: isBlacklisted_def revoked_state_def empty_state_def)
  have no: "\<not> isBlacklisted empty_state ''forged.u1''"
    by (simp add: isBlacklisted_def empty_state_def)
  have a: "verifyToken demo_lib 0 revoked_state ''forged.u1'' = Invalid ''Token has been revoked''"
    using verifyToken_rejected_token [OF rej, of revoked_state revoked_state] yes by simp
  have b: "verifyToken demo_lib 0 empty_state ''forged.u1'' = Invalid ''Invalid token''"
    using verifyToken_rejected_token [OF rej, of empty_state demo_state] no by simp
  have c: "verifyToken demo_lib 0 empty_state ''forged.u1'' = verifyToken demo_lib 0 demo_state ''forged.u1''"
    using verifyToken_rejected_token [OF rej, of empty_state demo_state] same by blast
  show ?thesis
    using rej a b c same by blast
qed

subsection \<open>Registration and login\<close>

text \<open>The parts of the registration that do hold: a username that is stored is refused
  and the state stays as it was; a success answers with a user object of the two keys
  \<^verbatim>\<open>id\<close> and \<^verbatim>\<open>username\<close>.\<close>

lemma register_duplicate_username:
  "usernameExists st (rr_username (request c)) \<Longrightarrow>
     register L uid st c = (st, auth_failure ''Username already exists'')"
  by (simp add: register_def register_begin_def)

lemma register_success_user_object:
  assumes "register L uid st c = (st', r)" and "success r"
  shows "rsp_user r = Some [(''id'', uid), (''username'', rr_username (request c))]
     \<and> map_of [(''id'', uid), (''username'', rr_username (request c))] ''password'' = None"
  using assms
  by (auto simp: register_def register_begin_def register_callback_def Let_def auth_failure_def
      split: option.splits if_splits)

text \<open>
  C5. The claim: \<open>register\<close> succeeds if and only if the username is non-empty and no
  stored user has it. The gRPC handler has no test of the username itself: the request
  with the empty username, on a state in which no user has the empty username, succeeds
  and stores a user whose username is empty.
\<close>

theorem register_accepts_empty_username:
  "rr_username (request register_empty_call) = []
   \<and> register demo_lib ''u3'' demo_state register_empty_call =
       (demo_state\<lparr>users := users demo_state @ [\<lparr>u_id = ''u3'', username = [], password = ''hash:pw''\<rparr>]\<rparr>,
        \<lparr>success = True, message = ''User registered successfully'', rsp_token = Some ''good.u3'',
         rsp_user = Some [(''id'', ''u3''), (''username'', [])]\<rparr>)"
  by (simp add: register_def register_begin_def register_callback_def Let_def register_empty_call_def
      demo_state_def usernameExists_def demo_lib_def)





subsection \<open>Revoking a token\<close>

text \<open>
  C7, as claimed: \<open>revoke\<close> succeeds for every token with a decodable expiry. It fails
  for the token \<^verbatim>\<open>epoch.u1\<close>: its payload decodes, its \<^verbatim>\<open>exp\<close> is the number \<open>0\<close>,
  and \<^verbatim>\<open>logout\<close> answers \<^verbatim>\<open>Invalid token\<close> and stores nothing.
\<close>

theorem logout_rejects_zero_expiry:
  "jwt_decode demo_lib (lo_token (request logout_epoch_call)) = Some (demo_payload\<lparr>p_exp := Some 0\<rparr>)
   \<and> p_exp (demo_payload\<lparr>p_exp := Some 0\<rparr>) = Some 0
   \<and> logout demo_lib demo_state logout_epoch_call
       = (demo_state, \<lparr>success = False, message = ''Invalid token''\<rparr>)"
  by (simp add: logout_def Let_def logout_epoch_call_def demo_lib_def demo_payload_def)

text \<open>
  C7, amended. For every token whose payload decodes with an \<^verbatim>\<open>exp\<close> that is not zero
  and lies in the range of a JavaScript date, \<^verbatim>\<open>logout\<close> succeeds, whatever
  \<^verbatim>\<open>jwt.verify\<close> would say of the signature, and stores the token with that expiry; a
  \<^verbatim>\<open>verifyToken\<close> that follows answers \<^verbatim>\<open>Token has been revoked\<close> at every clock
  reading, so also before the expiry, and it still does after any purge that ran before
  the expiry. A token that does not decode, or whose payload has no \<^verbatim>\<open>exp\<close>, is
  rejected and nothing is stored.
\<close>

theorem logout_then_verifyToken:
  "(\<forall>d e. jwt_decode L (lo_token (request c)) = Some d \<and> p_exp d = Some e
           \<and> e \<noteq> 0 \<and> \<bar>e * 1000\<bar> \<le> 8640000000000000 \<longrightarrow>
       success (snd (logout L st c))
       \<and> tokenBlacklist (fst (logout L st c))
           = tokenBlacklist st @ [\<lparr>token = lo_token (request c), expiresAt = e * 1000\<rparr>]
       \<and> (\<forall>now. verifyToken L now (fst (logout L st c)) (lo_token (request c))
                  = Invalid ''Token has been revoked'')
       \<and> (\<forall>now purge. purge < e * 1000 \<longrightarrow>
             verifyToken L now (cleanBlacklist purge (fst (logout L st c))) (lo_token (request c))
               = Invalid ''Token has been revoked''))
   \<and> (jwt_decode L (lo_token (request c)) = None
        \<or> (\<exists>d. jwt_decode L (lo_token (request c)) = Some d \<and> p_exp d = None) \<longrightarrow>
       logout L st c = (st, \<lparr>success = False, message = ''Invalid token''\<rparr>))"
  by (auto simp: logout_def Let_def toISOString_def verifyToken_def isBlacklisted_def
      cleanBlacklist_def)

theorem logout_then_verifyToken_witness:
  "jwt_verify demo_lib 0 ''forged.u1'' = None
   \<and> success (snd (logout demo_lib demo_state logout_forged_call))
   \<and> verifyToken demo_lib 0 (fst (logout demo_lib demo_state logout_forged_call)) ''forged.u1''
       = Invalid ''Token has been revoked''
   \<and> verifyToken demo_lib 0 (cleanBlacklist 5000 (fst (logout demo_lib demo_state logout_forged_call)))
         ''forged.u1'' = Invalid ''Token has been revoked''
   \<and> jwt_decode demo_lib ''garbage'' = None
   \<and> logout demo_lib demo_state logout_garbage_call
       = (demo_state, \<lparr>success = False, message = ''Invalid token''\<rparr>)"
proof -
  have dec: "jwt_decode demo_lib (lo_token (request logout_forged_call)) = Some demo_payload"
    and ex: "p_exp demo_payload = Some 87400"
    and tok: "lo_token (request logout_forged_call) = ''forged.u1''"
    by (simp_all add: demo_lib_def logout_forged_call_def demo_payload_def)
  have rng: "(87400::int) \<noteq> 0 \<and> \<bar>(87400::int) * 1000\<bar> \<le> 8640000000000000"
    by simp
  have purge: "(5000::int) < 87400 * 1000"
    by simp
  have none: "jwt_decode demo_lib (lo_token (request logout_garbage_call)) = None"
    and gtok: "lo_token (request logout_garbage_call) = ''garbage''"
    by (simp_all add: demo_lib_def logout_garbage_call_def)
  have rej: "jwt_verify demo_lib 0 ''forged.u1'' = None"
    by (simp add: demo_lib_def)
  note a = logout_then_verifyToken [of demo_lib logout_forged_call demo_state]
  note b = logout_then_verifyToken [of demo_lib logout_garbage_call demo_state]
  from a dec ex rng have a1: "success (snd (logout demo_lib demo_state logout_forged_call))"
    and a2: "verifyToken demo_lib 0 (fst (logout demo_lib demo_state logout_forged_call)) ''forged.u1''
       = Invalid ''Token has been revoked''"
    and a3: "\<forall>now purge. purge < 87400 * 1000 \<longrightarrow>
             verifyToken demo_lib now (cleanBlacklist purge (fst (logout demo_lib demo_state logout_forged_call))) ''forged.u1''
               = Invalid ''Token has been revoked''"
    unfolding tok by blast+
  from b none have b1: "logout demo_lib demo_state logout_garbage_call
       = (demo_state, \<lparr>success = False, message = ''Invalid token''\<rparr>)"
    by blast
  from a3 purge have a4: "verifyToken demo_lib 0 (cleanBlacklist 5000 (fst (logout demo_lib demo_state logout_forged_call)))
         ''forged.u1'' = Invalid ''Token has been revoked''"
    by blast
  show ?thesis
    using rej a1 a2 a4 none b1 unfolding gtok by blast
qed

subsection \<open>Purging the blacklist\<close>

text \<open>
  C8. For every revocation set and every time \<open>now\<close>, the purge removes exactly the
  entries whose \<open>expiresAt\<close> is at most \<open>now\<close>: every entry that remains expires
  strictly after \<open>now\<close>, every entry that expired at or before \<open>now\<close> is gone, and
  every entry that expires strictly after \<open>now\<close> is kept, as often as it occurred
  and in the same order. The other collections are untouched.
\<close>

theorem cleanBlacklist_exact:
  "(\<forall>e \<in> set (tokenBlacklist (cleanBlacklist now st)). now < expiresAt e)
   \<and> (\<forall>e \<in> set (tokenBlacklist st). expiresAt e \<le> now \<longrightarrow> e \<notin> set (tokenBlacklist (cleanBlacklist now st)))
   \<and> (\<forall>e \<in> set (tokenBlacklist st). now < expiresAt e \<longrightarrow>
        count_list (tokenBlacklist (cleanBlacklist now st)) e = count_list (tokenBlacklist st) e)
   \<and> tokenBlacklist (cleanBlacklist now st) = filter (\<lambda>e. now < expiresAt e) (tokenBlacklist st)
   \<and> users (cleanBlacklist now st) = users st
   \<and> notes (cleanBlacklist now st) = notes st
   \<and> tags (cleanBlacklist now st) = tags st"
  by (auto simp: cleanBlacklist_def count_list_filter_keep)

theorem cleanBlacklist_exact_witness:
  "\<lparr>token = ''c'', expiresAt = 30\<rparr> \<in> set (tokenBlacklist (cleanBlacklist 20 old_blacklist_state))
   \<and> \<lparr>token = ''b'', expiresAt = 20\<rparr> \<in> set (tokenBlacklist old_blacklist_state)
   \<and> \<lparr>token = ''b'', expiresAt = 20\<rparr> \<notin> set (tokenBlacklist (cleanBlacklist 20 old_blacklist_state))
   \<and> count_list (tokenBlacklist (cleanBlacklist 20 old_blacklist_state)) \<lparr>token = ''c'', expiresAt = 30\<rparr> = 1
   \<and> tokenBlacklist (cleanBlacklist 20 old_blacklist_state) = [\<lparr>token = ''c'', expiresAt = 30\<rparr>]"
  using cleanBlacklist_exact [of 20 old_blacklist_state]
  by (simp add: old_blacklist_state_def empty_state_def)

subsection \<open>Updating a note\<close>

text \<open>
  The handler alone, on a request with fields that are \<^verbatim>\<open>undefined\<close>: for every note
  that exists under the id and the owner of the request, it replaces the first such note
  \<open>old\<close> by a note \<open>new\<close> in which each field that the request has takes its value,
  each field that is \<^verbatim>\<open>undefined\<close> keeps the value of \<open>old\<close>, \<open>updatedAt\<close> is the
  current time, and \<open>id\<close>, \<open>userId\<close> and \<open>createdAt\<close> are those of \<open>old\<close>.
\<close>

lemma updateNote_handler_partial:
  assumes "n \<in> set (notes st)"
    and "n_id n = un_id (request c)"
    and "n_userId n = un_userId (request c)"
  shows "\<exists>i old new.
           i < length (notes st) \<and> old = notes st ! i
         \<and> n_id old = un_id (request c) \<and> n_userId old = un_userId (request c)
         \<and> updateNote now st c =
             (st\<lparr>notes := (notes st)[i := new]\<rparr>,
              \<lparr>success = True, message = ''Note updated successfully'', rsp_note = Some new\<rparr>)
         \<and> title new = (case un_title (request c) of None \<Rightarrow> title old | Some v \<Rightarrow> v)
         \<and> content new = (case un_content (request c) of None \<Rightarrow> content old | Some v \<Rightarrow> v)
         \<and> tagIds new = (case un_tagIds (request c) of None \<Rightarrow> tagIds old | Some v \<Rightarrow> v)
         \<and> archived new = (case un_archived (request c) of None \<Rightarrow> archived old | Some v \<Rightarrow> v)
         \<and> color new = (case un_color (request c) of None \<Rightarrow> color old | Some v \<Rightarrow> v)
         \<and> n_updatedAt new = now
         \<and> n_id new = n_id old \<and> n_userId new = n_userId old \<and> n_createdAt new = n_createdAt old"
proof -
  let ?P = "\<lambda>m. n_id m = un_id (request c) \<and> n_userId m = un_userId (request c)"
  from assms have "\<exists>i. findIndex ?P (notes st) = Some i"
    by (intro findIndex_exists [of n]) simp_all
  then obtain i where i: "findIndex ?P (notes st) = Some i" ..
  from findIndex_Some [OF i] have lt: "i < length (notes st)" and P: "?P (notes st ! i)"
    by simp_all
  show ?thesis
    apply (rule exI [of _ i])
    apply (rule exI [of _ "notes st ! i"])
    using lt P i
    by (simp add: updateNote_def Let_def)
qed

text \<open>The decoded request has every field defined, so the server overwrites each of
  the five fields: with the value the client set, or with the default of the type where
  the client set none.\<close>

lemma grpc_updateNote_overwrites:
  assumes "findIndex (\<lambda>m. n_id m = un_id (request c) \<and> n_userId m = un_userId (request c)) (notes st) = Some i"
  shows "rsp_note (snd (grpc_updateNote now st c)) =
           Some ((notes st ! i)
             \<lparr>title := (case un_title (request c) of None \<Rightarrow> [] | Some v \<Rightarrow> v),
              content := (case un_content (request c) of None \<Rightarrow> [] | Some v \<Rightarrow> v),
              tagIds := (case un_tagIds (request c) of None \<Rightarrow> [] | Some v \<Rightarrow> v),
              archived := (case un_archived (request c) of None \<Rightarrow> False | Some v \<Rightarrow> v),
              color := (case un_color (request c) of None \<Rightarrow> [] | Some v \<Rightarrow> v),
              n_updatedAt := now\<rparr>)"
  using assms
  by (simp add: grpc_updateNote_def updateNote_def decodeUpdateNoteRequest_def Let_def)

text \<open>The REST route keeps the fields that the body does not have.\<close>

lemma rest_updateNote_partial:
  assumes "findIndex (\<lambda>n. n_id n = i \<and> Some (n_userId n) = ru_userId body) (notes st) = Some k"
    and "ru_content body = None" and "ru_tagIds body = None"
    and "ru_archived body = None" and "ru_color body = None"
  shows "snd (rest_updateNote now st i body) =
           Inr ((notes st ! k)\<lparr>title := (case ru_title body of None \<Rightarrow> title (notes st ! k) | Some v \<Rightarrow> v),
                                n_updatedAt := now\<rparr>)"
  using assms
  by (simp add: rest_updateNote_def Let_def)

text \<open>
  C9. The claim: \<open>updateNote\<close> gives each supplied field the supplied value and
  leaves every field that was not supplied at its prior value. Over gRPC it does not:
  the client sets only the title of note \<open>n1\<close>; the server decodes the message with
  default values, and the handler overwrites the content \<^verbatim>\<open>milk\<close> by the empty string,
  the tag ids \<open>[t1]\<close> by the empty list and the color \<^verbatim>\<open>#ffffff\<close> by the empty string.
  The REST route, given the same update, changes the title and \<open>updatedAt\<close> only.
\<close>

theorem grpc_updateNote_title_only:
  "un_content (request updateNote_call) = None
   \<and> un_tagIds (request updateNote_call) = None
   \<and> un_color (request updateNote_call) = None
   \<and> notes demo_state ! 0 = demo_note1
   \<and> content demo_note1 = ''milk'' \<and> tagIds demo_note1 = [''t1''] \<and> color demo_note1 = ''#ffffff''
   \<and> grpc_updateNote 5000 demo_state updateNote_call =
       (demo_state\<lparr>notes := [demo_note1\<lparr>title := ''Groceries'', content := [], tagIds := [],
                                          color := [], n_updatedAt := 5000\<rparr>, demo_note2]\<rparr>,
        \<lparr>success = True, message = ''Note updated successfully'',
         rsp_note = Some (demo_note1\<lparr>title := ''Groceries'', content := [], tagIds := [],
                                      color := [], n_updatedAt := 5000\<rparr>)\<rparr>)
   \<and> snd (rest_updateNote 5000 demo_state ''n1'' rest_updateNote_body) =
       Inr (demo_note1\<lparr>title := ''Groceries'', n_updatedAt := 5000\<rparr>)"
  by (simp add: grpc_updateNote_def updateNote_def decodeUpdateNoteRequest_def Let_def
      updateNote_call_def demo_state_def demo_note1_def demo_note2_def rest_updateNote_def
      rest_updateNote_body_def)

subsection \<open>Creating notes and tags\<close>

text \<open>In the state without any user, a note is created for the owner \<^verbatim>\<open>nobody\<close>.\<close>

lemma createNote_for_unknown_owner:
  "users empty_state = []
   \<and> success (snd (createNote ''n9'' 7 7 empty_state
        \<lparr>metadata = [], request = \<lparr>cn_title = Some ''x'', cn_content = Some [], cn_tagIds = Some [],
                                   cn_userId = ''nobody'', cn_color = Some []\<rparr>\<rparr>))
   \<and> map n_userId (notes (fst (createNote ''n9'' 7 7 empty_state
        \<lparr>metadata = [], request = \<lparr>cn_title = Some ''x'', cn_content = Some [], cn_tagIds = Some [],
                                   cn_userId = ''nobody'', cn_color = Some []\<rparr>\<rparr>))) = [''nobody'']"
  by (simp add: createNote_def Let_def empty_state_def)

text \<open>
  C10. \<open>createNote\<close> and \<open>createTag\<close> make no check of the owner id they are given:
  in every state, whatever the users collection holds, also when it holds no user with
  that id, the creation succeeds, appends one entity that carries the owner id of the
  request, and neither reads nor changes the users collection.
\<close>

theorem create_without_owner_check:
  "(\<exists>n. createNote uid t1 t2 st c =
           (st\<lparr>notes := notes st @ [n]\<rparr>,
            \<lparr>success = True, message = ''Note created successfully'', rsp_note = Some n\<rparr>)
        \<and> n_id n = uid \<and> n_userId n = cn_userId (request c))
   \<and> users (fst (createNote uid t1 t2 st c)) = users st
   \<and> createNote uid t1 t2 (st\<lparr>users := []\<rparr>) c
       = (fst (createNote uid t1 t2 st c)\<lparr>users := []\<rparr>, snd (createNote uid t1 t2 st c))
   \<and> (\<exists>t. createTag uid t1 t2 st c' =
           (st\<lparr>tags := tags st @ [t]\<rparr>,
            \<lparr>success = True, message = ''Tag created successfully'', rsp_tag = Some t\<rparr>)
        \<and> t_id t = uid \<and> t_userId t = ct_userId (request c'))
   \<and> users (fst (createTag uid t1 t2 st c')) = users st
   \<and> createTag uid t1 t2 (st\<lparr>users := []\<rparr>) c'
       = (fst (createTag uid t1 t2 st c')\<lparr>users := []\<rparr>, snd (createTag uid t1 t2 st c'))"
  by (simp add: createNote_def createTag_def Let_def)

end
